theory Spec2Isabelle
  imports Complex_Main "HOL-Library.Word"
begin

section \<open>Data model\<close>

text \<open>
  The scripts of \<^verbatim>\<open>python_dj\<close> compute on Python and numpy floats. Signal values,
  thresholds and clock readings are modelled as \<^typ>\<open>real\<close>: the comparisons and
  products of the detection logic are taken exactly, without rounding. Counters are
  \<^typ>\<open>nat\<close>, PCM samples are \<^typ>\<open>16 word\<close> read as signed values.
\<close>

subsection \<open>config.py\<close>

record config =
  SAMPLE_RATE :: real
  VOLUME_THRESHOLD_MULTIPLIER :: real
  COOLDOWN_MS :: real
  HISTORY_SIZE :: nat
  MIN_VOLUME_THRESHOLD :: real
  MAX_VOLUME_THRESHOLD :: real

definition default_config :: config where
  "default_config =
     \<lparr>SAMPLE_RATE = 44100, VOLUME_THRESHOLD_MULTIPLIER = 3 / 2, COOLDOWN_MS = 250,
      HISTORY_SIZE = 10, MIN_VOLUME_THRESHOLD = 500, MAX_VOLUME_THRESHOLD = 10000\<rparr>"

subsection \<open>Rolling histories: \<^verbatim>\<open>collections.deque(maxlen=N)\<close>\<close>

text \<open>
  \<^verbatim>\<open>deque.append\<close> on a bounded deque puts the value at the right end and, when the
  length then exceeds \<^verbatim>\<open>maxlen\<close>, removes one value from the left end.
\<close>

definition deque_append :: "nat \<Rightarrow> 'a list \<Rightarrow> 'a \<Rightarrow> 'a list" where
  "deque_append maxlen d v =
     (let d' = d @ [v] in if length d' > maxlen then tl d' else d')"

text \<open>Pushing a sequence of values, oldest first.\<close>

fun deque_extend :: "nat \<Rightarrow> 'a list \<Rightarrow> 'a list \<Rightarrow> 'a list" where
  "deque_extend maxlen d [] = d"
| "deque_extend maxlen d (v # vs) = deque_extend maxlen (deque_append maxlen d v) vs"

text \<open>\<^verbatim>\<open>np.mean\<close>; the scripts only take it of a history that passed a length check.\<close>

definition mean :: "real list \<Rightarrow> real" where
  "mean xs = sum_list xs / real (length xs)"

subsection \<open>ai_audio_analyzer.py\<close>

text \<open>
  The module globals of the scripts. Every script has its own copy of the globals it
  uses; the record holds their union, and each function below touches only the fields
  its script declares. \<open>bass_history\<close>, \<open>mid_history\<close> and \<open>frame_counter\<close> are the
  attributes that \<^verbatim>\<open>audio_callback\<close> attaches to itself on its first call.
\<close>

record globals =
  volume_history :: "real list"
  bass_history :: "real list"
  mid_history :: "real list"
  last_flash_time :: real
  current_bpm :: real
  frame_counter :: nat

definition initial_globals :: globals where
  "initial_globals =
     \<lparr>volume_history = [], bass_history = [], mid_history = [],
      last_flash_time = 0, current_bpm = 0, frame_counter = 0\<rparr>"

datatype event_kind = Bass_drop | Vocal | Rhythm | Build

definition detect_bass_drop :: "real \<Rightarrow> real list \<Rightarrow> bool" where
  "detect_bass_drop bass_energy bass_hist =
     (if length bass_hist < 5 then False
      else (let avg_bass = mean bass_hist; threshold = avg_bass * 2
            in bass_energy > threshold \<and> bass_energy > 5000))"

text \<open>
  The outcome of the tempo estimator is an input: \<open>None\<close> when the conversion or
  \<^verbatim>\<open>librosa.beat.beat_track\<close> raises, which the bare \<^verbatim>\<open>except\<close> turns into 0.
\<close>

definition estimate_bpm :: "real option \<Rightarrow> real" where
  "estimate_bpm outcome = (case outcome of Some tempo \<Rightarrow> tempo | None \<Rightarrow> 0)"

text \<open>\<^verbatim>\<open>all(r[i] < r[i+1] for i in range(len(r)-1))\<close>\<close>

definition all_increasing :: "real list \<Rightarrow> bool" where
  "all_increasing r = list_all (\<lambda>i. r ! i < r ! Suc i) [0..<length r - 1]"

text \<open>
  \<open>now\<close> is the reading of \<^verbatim>\<open>time.time()\<close> (seconds) taken by the cooldown check;
  \<open>last_flash\<close> is the global \<^verbatim>\<open>last_flash_time\<close> (milliseconds), which the function
  reads and does not assign. The product and the difference of the cooldown test are
  exact here; \<open>detect_rhythm_event_rounded\<close> below rounds them as the doubles of the
  program do.
\<close>

definition detect_rhythm_event ::
  "config \<Rightarrow> real \<Rightarrow> real \<Rightarrow> real \<Rightarrow> real \<Rightarrow> real list \<Rightarrow> real list \<Rightarrow> event_kind option" where
  "detect_rhythm_event cfg last_flash now bass_energy mid_energy bass_hist mid_hist =
     (let current_time = now * 1000 in
      if current_time - last_flash < COOLDOWN_MS cfg then None
      else if length bass_hist < 5 \<or> length mid_hist < 5 then None
      else (let avg_bass = mean bass_hist; avg_mid = mean mid_hist in
        if detect_bass_drop bass_energy bass_hist then Some Bass_drop
        else if bass_energy > avg_bass * (3 / 2) \<and> bass_energy > 3000 then Some Rhythm
        else if mid_energy > avg_mid * (13 / 10) \<and> mid_energy > bass_energy * (6 / 5)
          then Some Vocal
        else if length bass_hist \<ge> 5 \<and> all_increasing (drop (length bass_hist - 5) bass_hist)
          then Some Build
        else None))"

text \<open>Python's \<^verbatim>\<open>int(x)\<close> on a float: truncation towards zero.\<close>

definition py_int :: "real \<Rightarrow> int" where
  "py_int x = (if x < 0 then \<lceil>x\<rceil> else \<lfloor>x\<rfloor>)"

record event =
  event_type :: event_kind
  intensity :: real
  bpm :: int
  bass_energy :: int
  mid_energy :: int
  high_energy :: int
  timestamp :: real

text \<open>
  What one call of \<^verbatim>\<open>audio_callback\<close> receives from outside: the results of
  \<^verbatim>\<open>calculate_rms\<close> and \<^verbatim>\<open>analyze_frequency_bands\<close> on the chunk, the outcome of the
  tempo estimator, the three clock readings (seconds) taken by the cooldown check, by
  the event payload and by the assignment to \<^verbatim>\<open>last_flash_time\<close>, and whether
  \<^verbatim>\<open>sio.emit\<close> returns (\<open>True\<close>) or raises.
\<close>

record chunk =
  chunk_rms :: real
  chunk_bass :: real
  chunk_mid :: real
  chunk_high :: real
  chunk_tempo :: "real option"
  clock_detect :: real
  clock_stamp :: real
  clock_flash :: real
  emit_ok :: bool

text \<open>
  \<^verbatim>\<open>send_flash_event\<close>: the event goes to the sink and \<^verbatim>\<open>last_flash_time\<close> is set
  afterwards, inside the same \<^verbatim>\<open>try\<close>; when \<^verbatim>\<open>emit\<close> raises nothing is emitted and
  the global keeps its value.
\<close>

definition send_flash_event ::
  "globals \<Rightarrow> chunk \<Rightarrow> event_kind \<Rightarrow> real \<Rightarrow> real \<Rightarrow> real \<Rightarrow> real \<Rightarrow> real
     \<Rightarrow> globals \<times> event option" where
  "send_flash_event g c ev_type intens bpm_v bass_v mid_v high_v =
     (if emit_ok c
      then (g\<lparr>last_flash_time := clock_flash c * 1000\<rparr>,
            Some \<lparr>event_type = ev_type, intensity = intens, bpm = py_int bpm_v,
                  bass_energy = py_int bass_v, mid_energy = py_int mid_v,
                  high_energy = py_int high_v, timestamp = clock_stamp c\<rparr>)
      else (g, None))"

text \<open>The fixed table of \<^verbatim>\<open>audio_callback\<close>.\<close>

fun intensity_table :: "event_kind \<Rightarrow> real" where
  "intensity_table Bass_drop = 1"
| "intensity_table Vocal = 7 / 10"
| "intensity_table Rhythm = 8 / 10"
| "intensity_table Build = 5 / 10"

definition audio_callback :: "config \<Rightarrow> globals \<Rightarrow> chunk \<Rightarrow> globals \<times> event option" where
  "audio_callback cfg g c =
     (let g1 = g\<lparr>volume_history :=
                   deque_append (HISTORY_SIZE cfg) (volume_history g) (chunk_rms c)\<rparr>;
          g2 = g1\<lparr>bass_history := deque_append 10 (bass_history g1) (chunk_bass c),
                  mid_history := deque_append 10 (mid_history g1) (chunk_mid c)\<rparr>;
          g3 = g2\<lparr>frame_counter := frame_counter g2 + 1\<rparr>;
          g4 = (if frame_counter g3 mod 20 = 0
                then g3\<lparr>current_bpm := estimate_bpm (chunk_tempo c)\<rparr> else g3)
      in case detect_rhythm_event cfg (last_flash_time g4) (clock_detect c)
                (chunk_bass c) (chunk_mid c) (bass_history g4) (mid_history g4) of
           None \<Rightarrow> (g4, None)
         | Some k \<Rightarrow>
             send_flash_event g4 c k (intensity_table k) (current_bpm g4)
               (chunk_bass c) (chunk_mid c) (chunk_high c))"

text \<open>The clock readings of a run, in the order the program takes them.\<close>

fun clock_readings :: "chunk list \<Rightarrow> real list" where
  "clock_readings [] = []"
| "clock_readings (c # cs) = clock_detect c # clock_stamp c # clock_flash c # clock_readings cs"

text \<open>
  A state in which four chunks have been processed and two test inputs, used to run the
  callback on concrete values: a chunk given by its bass energy and one clock reading.
\<close>

definition warm_globals :: globals where
  "warm_globals =
     \<lparr>volume_history = [0, 0, 0, 0], bass_history = [1000, 1000, 1000, 1000],
      mid_history = [0, 0, 0, 0], last_flash_time = 0, current_bpm = 0, frame_counter = 4\<rparr>"

definition bass_chunk :: "real \<Rightarrow> real \<Rightarrow> chunk" where
  "bass_chunk b t =
     \<lparr>chunk_rms = 0, chunk_bass = b, chunk_mid = 0, chunk_high = 0, chunk_tempo = None,
      clock_detect = t, clock_stamp = t, clock_flash = t, emit_ok = True\<rparr>"

subsection \<open>dj_listener.py\<close>

text \<open>
  \<^verbatim>\<open>detect_beat(rms_volume)\<close> on the globals \<^verbatim>\<open>volume_history\<close>
  (\<^verbatim>\<open>deque(maxlen=config.HISTORY_SIZE)\<close>) and \<^verbatim>\<open>last_flash_time\<close>; \<open>now\<close> is the reading
  of \<^verbatim>\<open>time.time()\<close>. The result is the new globals and the returned flag.
\<close>

definition dj_listener_detect_beat :: "config \<Rightarrow> globals \<Rightarrow> real \<Rightarrow> real \<Rightarrow> globals \<times> bool" where
  "dj_listener_detect_beat cfg g rms_volume now =
     (let g1 = g\<lparr>volume_history :=
                   deque_append (HISTORY_SIZE cfg) (volume_history g) rms_volume\<rparr> in
      if length (volume_history g1) < 3 then (g1, False)
      else (let avg_volume = mean (volume_history g1);
                threshold = max (MIN_VOLUME_THRESHOLD cfg)
                  (min (avg_volume * VOLUME_THRESHOLD_MULTIPLIER cfg) (MAX_VOLUME_THRESHOLD cfg));
                is_beat = rms_volume > threshold;
                current_time = now * 1000;
                time_since_last_flash = current_time - last_flash_time g1 in
            if is_beat \<and> time_since_last_flash \<ge> COOLDOWN_MS cfg
            then (g1\<lparr>last_flash_time := current_time\<rparr>, True)
            else (g1, False)))"

subsection \<open>live_song_analyzer.py, music_rhythm_test.py, simple_rhythm_demo.py\<close>

text \<open>
  The three \<^verbatim>\<open>detect_beat(rms, bass)\<close> return the pair \<^verbatim>\<open>(is_beat, intensity)\<close>; their
  histories are \<^verbatim>\<open>deque(maxlen=30)\<close>, \<^verbatim>\<open>deque(maxlen=20)\<close> and \<^verbatim>\<open>deque(maxlen=20)\<close>.
\<close>

definition live_song_analyzer_intensity :: "real \<Rightarrow> real" where
  "live_song_analyzer_intensity rms = min 1 (max (4 / 10) (rms / 4000))"

definition live_song_analyzer_detect_beat ::
  "config \<Rightarrow> globals \<Rightarrow> real \<Rightarrow> real \<Rightarrow> real \<Rightarrow> globals \<times> bool \<times> real" where
  "live_song_analyzer_detect_beat cfg g rms bass now =
     (let g1 = g\<lparr>volume_history := deque_append 30 (volume_history g) rms,
                  bass_history := deque_append 30 (bass_history g) bass\<rparr> in
      if length (volume_history g1) < 10 then (g1, False, 0)
      else (let avg_vol = mean (volume_history g1);
                avg_bass = mean (bass_history g1);
                vol_threshold = avg_vol * (16 / 10);
                bass_threshold = avg_bass * (19 / 10);
                current_time = now * 1000 in
            if current_time - last_flash_time g1 < COOLDOWN_MS cfg then (g1, False, 0)
            else (let is_beat = (rms > vol_threshold \<and> rms > 800) \<or>
                                (bass > bass_threshold \<and> bass > 2000) in
                  if is_beat
                  then (g1\<lparr>last_flash_time := current_time\<rparr>, True,
                        live_song_analyzer_intensity rms)
                  else (g1, False, 0))))"

definition music_rhythm_test_intensity :: "real \<Rightarrow> real" where
  "music_rhythm_test_intensity rms_volume = min 1 (max (3 / 10) (rms_volume / 5000))"

definition music_rhythm_test_detect_beat ::
  "config \<Rightarrow> globals \<Rightarrow> real \<Rightarrow> real \<Rightarrow> real \<Rightarrow> globals \<times> bool \<times> real" where
  "music_rhythm_test_detect_beat cfg g rms_volume bass now =
     (let g1 = g\<lparr>volume_history := deque_append 20 (volume_history g) rms_volume,
                  bass_history := deque_append 20 (bass_history g) bass\<rparr> in
      if length (volume_history g1) < 5 then (g1, False, 0)
      else (let avg_volume = mean (volume_history g1);
                avg_bass = mean (bass_history g1);
                volume_threshold = avg_volume * (15 / 10);
                bass_threshold = avg_bass * (18 / 10);
                current_time = now * 1000 in
            if current_time - last_flash_time g1 < COOLDOWN_MS cfg then (g1, False, 0)
            else (let is_beat = (rms_volume > volume_threshold \<and> rms_volume > 500) \<or>
                                (bass > bass_threshold \<and> bass > 1000) in
                  if is_beat
                  then (g1\<lparr>last_flash_time := current_time\<rparr>, True,
                        music_rhythm_test_intensity rms_volume)
                  else (g1, False, 0))))"

definition simple_rhythm_demo_detect_beat ::
  "config \<Rightarrow> globals \<Rightarrow> real \<Rightarrow> real \<Rightarrow> real \<Rightarrow> globals \<times> bool \<times> real" where
  "simple_rhythm_demo_detect_beat cfg g rms bass now =
     (let g1 = g\<lparr>volume_history := deque_append 20 (volume_history g) rms,
                  bass_history := deque_append 20 (bass_history g) bass\<rparr> in
      if length (volume_history g1) < 5 then (g1, False, 0)
      else (let avg_vol = mean (volume_history g1);
                avg_bass = mean (bass_history g1);
                is_beat = (rms > avg_vol * (15 / 10) \<or> bass > avg_bass * (18 / 10));
                current_time = now * 1000 in
            if is_beat \<and> current_time - last_flash_time g1 \<ge> COOLDOWN_MS cfg
            then (g1\<lparr>last_flash_time := current_time\<rparr>, True,
                  min 1 (max (3 / 10) (rms / 5000)))
            else (g1, False, 0)))"

text \<open>The intensity that \<^verbatim>\<open>analyze_music_file\<close> of simple_rhythm_demo.py sends.\<close>

definition music_file_intensity :: "real \<Rightarrow> real" where
  "music_file_intensity rms = min 1 (rms * 10)"

text \<open>The continuous mapping in the words of the specification.\<close>

definition spec_clamp :: "real \<Rightarrow> real \<Rightarrow> real \<Rightarrow> real" where
  "spec_clamp x lo hi = (if x < lo then lo else if hi < x then hi else x)"

text \<open>A state after quiet chunks, with a known tempo, just before a tempo update.\<close>

definition quiet_globals :: globals where
  "quiet_globals =
     \<lparr>volume_history = [1, 2, 3, 4], bass_history = [1, 2, 3, 4],
      mid_history = [0, 0, 0, 0], last_flash_time = 0, current_bpm = 120, frame_counter = 19\<rparr>"

subsection \<open>Frequency band analysis\<close>

text \<open>
  \<^verbatim>\<open>np.fft.rfft\<close> of a real sequence of length \<open>n\<close>: the bins \<open>0, \<dots>, n div 2\<close> of the
  discrete Fourier transform. \<^verbatim>\<open>np.fft.rfftfreq(n, d)\<close> gives the centre frequencies
  \<open>k * (1 / (n * d))\<close> of these bins.
\<close>

definition dft_bin :: "real list \<Rightarrow> nat \<Rightarrow> complex" where
  "dft_bin x k =
     (\<Sum>n = 0..<length x.
        complex_of_real (x ! n) * cis (- (2 * pi * real k * real n / real (length x))))"

definition rfft :: "real list \<Rightarrow> complex list" where
  "rfft x = map (dft_bin x) [0..<length x div 2 + 1]"

definition rfftfreq :: "nat \<Rightarrow> real \<Rightarrow> real list" where
  "rfftfreq n d = map (\<lambda>k. real k * (1 / (real n * d))) [0..<n div 2 + 1]"

text \<open>
  \<^verbatim>\<open>np.sum(magnitudes[(frequencies >= lo) & (frequencies <= hi)])\<close>: the sum of the
  magnitudes at the positions where the mask holds.
\<close>

definition masked_sum :: "real list \<Rightarrow> real list \<Rightarrow> real \<Rightarrow> real \<Rightarrow> real" where
  "masked_sum magnitudes frequencies lo hi =
     sum_list (map fst (filter (\<lambda>(m, f). lo \<le> f \<and> f \<le> hi) (zip magnitudes frequencies)))"

datatype py_error = ValueError | ZeroDivisionError

text \<open>
  ai_audio_analyzer.py: the transform is taken of the int16 samples as they come from
  \<^verbatim>\<open>np.frombuffer\<close>. \<^verbatim>\<open>rfft\<close> raises \<^verbatim>\<open>ValueError\<close> on an empty chunk, and
  \<^verbatim>\<open>1/sample_rate\<close> raises \<^verbatim>\<open>ZeroDivisionError\<close>. The result is
  \<^verbatim>\<open>(bass_energy, mid_energy, high_energy, vocal_energy)\<close>.
\<close>

definition analyze_frequency_bands ::
  "16 word list \<Rightarrow> real \<Rightarrow> py_error + real \<times> real \<times> real \<times> real" where
  "analyze_frequency_bands audio_data sample_rate =
     (if audio_data = [] then Inl ValueError
      else if sample_rate = 0 then Inl ZeroDivisionError
      else (let x = map (\<lambda>w. real_of_int (sint w)) audio_data;
                fft = rfft x;
                frequencies = rfftfreq (length x) (1 / sample_rate);
                magnitudes = map cmod fft
            in Inr (masked_sum magnitudes frequencies 20 250,
                    masked_sum magnitudes frequencies 250 2000,
                    masked_sum magnitudes frequencies 2000 8000,
                    masked_sum magnitudes frequencies 300 3400)))"

text \<open>
  live_song_analyzer.py, \<^verbatim>\<open>analyze_bass\<close>: the samples are converted to float and divided
  by 32768 before the transform.
\<close>

definition live_song_analyzer_normalize :: "16 word list \<Rightarrow> real list" where
  "live_song_analyzer_normalize audio_data =
     map (\<lambda>y. y / 32768) (map (\<lambda>w. real_of_int (sint w)) audio_data)"

definition live_song_analyzer_analyze_bass :: "16 word list \<Rightarrow> real \<Rightarrow> py_error + real" where
  "live_song_analyzer_analyze_bass audio_data sample_rate =
     (let audio_array = live_song_analyzer_normalize audio_data in
      if audio_array = [] then Inl ValueError
      else if sample_rate = 0 then Inl ZeroDivisionError
      else (let fft = rfft audio_array;
                freqs = rfftfreq (length audio_array) (1 / sample_rate)
            in Inr (masked_sum (map cmod fft) freqs 20 250)))"

text \<open>
  music_rhythm_test.py, \<^verbatim>\<open>analyze_frequency_bands\<close>: the array is converted with
  \<^verbatim>\<open>astype(np.float32)\<close> first, and the division by 32768 stands under the test
  \<^verbatim>\<open>audio_array.dtype == np.int16\<close> on the converted array.
\<close>

datatype dtype = Int16 | Float32

definition music_rhythm_test_analyze_frequency_bands ::
  "16 word list \<Rightarrow> real \<Rightarrow> py_error + real \<times> real \<times> real" where
  "music_rhythm_test_analyze_frequency_bands audio_data sample_rate =
     (let converted = map (\<lambda>w. real_of_int (sint w)) audio_data;
          converted_dtype = Float32;
          audio_array = (if converted_dtype = Int16 then map (\<lambda>y. y / 32768) converted
                         else converted) in
      if audio_array = [] then Inl ValueError
      else if sample_rate = 0 then Inl ZeroDivisionError
      else (let fft = rfft audio_array;
                frequencies = rfftfreq (length audio_array) (1 / sample_rate);
                magnitudes = map cmod fft
            in Inr (masked_sum magnitudes frequencies 20 250,
                    masked_sum magnitudes frequencies 250 2000,
                    masked_sum magnitudes frequencies 2000 8000)))"

text \<open>
  The band energy in the words of the specification: the samples are normalised to
  \<open>[-1, 1]\<close> by dividing by 32768, and the magnitudes of all bins whose centre frequency
  lies in the inclusive range are summed.
\<close>

definition spec_band_energy :: "16 word list \<Rightarrow> real \<Rightarrow> real \<Rightarrow> real \<Rightarrow> real" where
  "spec_band_energy samples sample_rate lo hi =
     (\<Sum>k \<in> {k. k \<le> length samples div 2 \<and>
               lo \<le> real k * sample_rate / real (length samples) \<and>
               real k * sample_rate / real (length samples) \<le> hi}.
        cmod (dft_bin (map (\<lambda>w. real_of_int (sint w) / 32768) samples) k))"

text \<open>A chunk of eight samples: one sample of half the full scale, then silence.\<close>

definition impulse_chunk :: "16 word list" where
  "impulse_chunk = [16384, 0, 0, 0, 0, 0, 0, 0]"

subsection \<open>The cooldown in floating point\<close>

text \<open>
  The clock readings are doubles, and so are \<^verbatim>\<open>time.time() * 1000\<close> and the difference
  \<^verbatim>\<open>current_time - last_flash_time\<close>, each rounded. \<open>rnd\<close> is the rounding of a real
  result to a double; the functions below are \<^verbatim>\<open>detect_rhythm_event\<close>,
  \<^verbatim>\<open>send_flash_event\<close> and \<^verbatim>\<open>audio_callback\<close> with the two products and the difference
  rounded. With the identity for \<open>rnd\<close> they are the functions above.
\<close>

definition detect_rhythm_event_rounded ::
  "(real \<Rightarrow> real) \<Rightarrow> config \<Rightarrow> real \<Rightarrow> real \<Rightarrow> real \<Rightarrow> real \<Rightarrow> real list \<Rightarrow> real list
     \<Rightarrow> event_kind option" where
  "detect_rhythm_event_rounded rnd cfg last_flash now bass_v mid_v bass_hist mid_hist =
     (let current_time = rnd (now * 1000) in
      if rnd (current_time - last_flash) < COOLDOWN_MS cfg then None
      else if length bass_hist < 5 \<or> length mid_hist < 5 then None
      else (let avg_bass = mean bass_hist; avg_mid = mean mid_hist in
        if detect_bass_drop bass_v bass_hist then Some Bass_drop
        else if bass_v > avg_bass * (3 / 2) \<and> bass_v > 3000 then Some Rhythm
        else if mid_v > avg_mid * (13 / 10) \<and> mid_v > bass_v * (6 / 5) then Some Vocal
        else if length bass_hist \<ge> 5 \<and> all_increasing (drop (length bass_hist - 5) bass_hist)
          then Some Build
        else None))"

definition send_flash_event_rounded ::
  "(real \<Rightarrow> real) \<Rightarrow> globals \<Rightarrow> chunk \<Rightarrow> event_kind \<Rightarrow> real \<Rightarrow> real \<Rightarrow> real \<Rightarrow> real \<Rightarrow> real
     \<Rightarrow> globals \<times> event option" where
  "send_flash_event_rounded rnd g c ev_type intens bpm_v bass_v mid_v high_v =
     (if emit_ok c
      then (g\<lparr>last_flash_time := rnd (clock_flash c * 1000)\<rparr>,
            Some \<lparr>event_type = ev_type, intensity = intens, bpm = py_int bpm_v,
                  bass_energy = py_int bass_v, mid_energy = py_int mid_v,
                  high_energy = py_int high_v, timestamp = clock_stamp c\<rparr>)
      else (g, None))"

definition audio_callback_rounded ::
  "(real \<Rightarrow> real) \<Rightarrow> config \<Rightarrow> globals \<Rightarrow> chunk \<Rightarrow> globals \<times> event option" where
  "audio_callback_rounded rnd cfg g c =
     (let g1 = g\<lparr>volume_history :=
                   deque_append (HISTORY_SIZE cfg) (volume_history g) (chunk_rms c)\<rparr>;
          g2 = g1\<lparr>bass_history := deque_append 10 (bass_history g1) (chunk_bass c),
                  mid_history := deque_append 10 (mid_history g1) (chunk_mid c)\<rparr>;
          g3 = g2\<lparr>frame_counter := frame_counter g2 + 1\<rparr>;
          g4 = (if frame_counter g3 mod 20 = 0
                then g3\<lparr>current_bpm := estimate_bpm (chunk_tempo c)\<rparr> else g3)
      in case detect_rhythm_event_rounded rnd cfg (last_flash_time g4) (clock_detect c)
                (chunk_bass c) (chunk_mid c) (bass_history g4) (mid_history g4) of
           None \<Rightarrow> (g4, None)
         | Some k \<Rightarrow>
             send_flash_event_rounded rnd g4 c k (intensity_table k) (current_bpm g4)
               (chunk_bass c) (chunk_mid c) (chunk_high c))"

text \<open>A run of the engine: the callback on every chunk in turn, the emitted events in order.\<close>

fun run_rounded :: "(real \<Rightarrow> real) \<Rightarrow> config \<Rightarrow> globals \<Rightarrow> chunk list \<Rightarrow> event list" where
  "run_rounded rnd cfg g [] = []"
| "run_rounded rnd cfg g (c # cs) =
     (case audio_callback_rounded rnd cfg g c of
        (g', None) \<Rightarrow> run_rounded rnd cfg g' cs
      | (g', Some e) \<Rightarrow> e # run_rounded rnd cfg g' cs)"

text \<open>A rounding with relative error \<open>2\<^sup>-\<^sup>5\<^sup>3\<close>, used to run the callback on concrete values.\<close>

definition shrink :: "real \<Rightarrow> real" where
  "shrink x = x - x / 2 ^ 53"

text \<open>No rounding: for operations whose exact results are doubles.\<close>

definition no_rounding :: "real \<Rightarrow> real" where
  "no_rounding x = x"

section \<open>Rolling history\<close>

lemma deque_append_drop:
  "length d \<le> n \<Longrightarrow> deque_append n d v = drop (Suc (length d) - n) (d @ [v])"
  by (cases d) (auto simp: deque_append_def Let_def Suc_diff_le)

lemma deque_append_length: "length d \<le> n \<Longrightarrow> length (deque_append n d v) \<le> n"
  by (auto simp: deque_append_def Let_def)

lemma deque_extend_drop:
  "length d \<le> n \<Longrightarrow> deque_extend n d vs = drop (length d + length vs - n) (d @ vs)"
proof (induction vs arbitrary: d)
  case Nil
  then show ?case by simp
next
  case (Cons v vs)
  let ?d = "deque_append n d v"
  have len: "length ?d \<le> n"
    using Cons.prems by (rule deque_append_length)
  have eq: "?d = drop (Suc (length d) - n) (d @ [v])"
    using Cons.prems by (rule deque_append_drop)
  have "deque_extend n d (v # vs) = drop (length ?d + length vs - n) (?d @ vs)"
    using Cons.IH [OF len] by simp
  also have "\<dots> = drop (length d + length (v # vs) - n) (d @ v # vs)"
  proof (cases "length d < n")
    case True
    then show ?thesis using eq by simp
  next
    case False
    with Cons.prems have dn: "length d = n" by simp
    show ?thesis
    proof (cases d)
      case Nil
      with dn eq show ?thesis by simp
    next
      case (Cons a as)
      with dn eq show ?thesis by simp
    qed
  qed
  finally show ?case .
qed

text \<open>
  C9. A rolling history of capacity \<open>n\<close> that starts empty holds, after any sequence of
  pushes, the last \<open>n\<close> pushed values in the order they were pushed: its length never
  exceeds \<open>n\<close>, and after \<open>n + 1\<close> pushes it has length \<open>n\<close> and is the pushed sequence
  without its first (oldest) element, which is therefore gone when the values are distinct.
\<close>

theorem rolling_history_fifo:
  "deque_extend n [] vs = drop (length vs - n) vs \<and>
   length (deque_extend n [] vs) \<le> n \<and>
   (length vs = Suc n \<longrightarrow>
      length (deque_extend n [] vs) = n \<and> deque_extend n [] vs = tl vs \<and>
      (distinct vs \<longrightarrow> hd vs \<notin> set (deque_extend n [] vs)))"
proof -
  have d: "deque_extend n [] vs = drop (length vs - n) vs"
    using deque_extend_drop [of "[]" n vs] by simp
  have "length vs = Suc n \<Longrightarrow> drop (length vs - n) vs = tl vs"
    by (simp add: drop_Suc)
  moreover have "distinct vs \<Longrightarrow> length vs = Suc n \<Longrightarrow> hd vs \<notin> set (tl vs)"
    by (cases vs) auto
  ultimately show ?thesis using d by auto
qed

theorem rolling_history_fifo_witness:
  "deque_extend 3 [] [1, 2, 3, 4 :: real] = [2, 3, 4] \<and>
   length [1, 2, 3, 4 :: real] = Suc 3 \<and> distinct [1, 2, 3, 4 :: real] \<and>
   hd [1, 2, 3, 4 :: real] \<notin> set (deque_extend 3 [] [1, 2, 3, 4 :: real])"
  using rolling_history_fifo [of 3 "[1, 2, 3, 4 :: real]"] by simp

section \<open>Cooldown\<close>

text \<open>Without rounding the three functions are the exact ones.\<close>

lemma detect_rhythm_event_rounded_exact:
  "detect_rhythm_event_rounded (\<lambda>x. x) = detect_rhythm_event"
  by (intro ext) (simp add: detect_rhythm_event_rounded_def detect_rhythm_event_def)

lemma send_flash_event_rounded_exact: "send_flash_event_rounded (\<lambda>x. x) = send_flash_event"
  by (intro ext) (simp add: send_flash_event_rounded_def send_flash_event_def)

lemma audio_callback_rounded_exact: "audio_callback_rounded (\<lambda>x. x) = audio_callback"
  by (intro ext)
     (simp only: audio_callback_rounded_def audio_callback_def
        detect_rhythm_event_rounded_exact send_flash_event_rounded_exact)

text \<open>
  The two facts about a rounding with relative error at most \<open>u\<close> that the cooldown
  needs: a rounded difference of at least \<open>cd\<close> comes from an exact difference of at least
  \<open>cd / (1 + u)\<close>, and a clock reading of magnitude at most \<open>T\<close> seconds, in milliseconds,
  is rounded by at most \<open>1000 * u * T\<close>.
\<close>

lemma rounded_gap:
  fixes rnd :: "real \<Rightarrow> real"
  assumes err: "\<And>x. \<bar>rnd x - x\<bar> \<le> u * \<bar>x\<bar>"
      and u: "0 \<le> u" "u < 1" and cd: "0 \<le> cd" and open_gate: "cd \<le> rnd (C - L)"
  shows "cd / (1 + u) \<le> C - L"
proof (cases "0 \<le> C - L")
  case True
  from err [of "C - L"] True have "rnd (C - L) \<le> (C - L) + u * (C - L)"
    by (simp add: abs_le_iff)
  with open_gate have "cd \<le> (C - L) * (1 + u)" by (simp add: algebra_simps)
  with u show ?thesis by (simp add: pos_divide_le_eq)
next
  case False
  then have neg: "C - L < 0" by simp
  from err [of "C - L"] neg have "rnd (C - L) \<le> (C - L) - u * (C - L)"
    by (simp add: abs_le_iff algebra_simps)
  also have "\<dots> = (C - L) * (1 - u)" by (simp add: algebra_simps)
  also have "\<dots> < 0" using neg u by (simp add: mult_neg_pos)
  finally show ?thesis using open_gate cd by simp
qed

lemma rounded_ms:
  fixes rnd :: "real \<Rightarrow> real"
  assumes err: "\<And>x. \<bar>rnd x - x\<bar> \<le> u * \<bar>x\<bar>" and u: "0 \<le> u" and t: "\<bar>t\<bar> \<le> T"
  shows "\<bar>rnd (t * 1000) - t * 1000\<bar> \<le> 1000 * u * T"
proof -
  have "\<bar>rnd (t * 1000) - t * 1000\<bar> \<le> u * \<bar>t * 1000\<bar>" by (rule err)
  also have "\<dots> = 1000 * u * \<bar>t\<bar>" by (simp add: abs_mult)
  also have "\<dots> \<le> 1000 * u * T" using u t by (simp add: mult_left_mono)
  finally show ?thesis .
qed

lemma audio_callback_rounded_event:
  assumes "audio_callback_rounded rnd cfg g c = (g', Some e)"
  shows "timestamp e = clock_stamp c \<and> last_flash_time g' = rnd (clock_flash c * 1000) \<and>
         COOLDOWN_MS cfg \<le> rnd (rnd (clock_detect c * 1000) - last_flash_time g)"
  using assms
  by (auto simp: audio_callback_rounded_def send_flash_event_rounded_def
        detect_rhythm_event_rounded_def Let_def split: option.splits if_splits)

lemma audio_callback_rounded_no_event:
  assumes "audio_callback_rounded rnd cfg g c = (g', None)"
  shows "last_flash_time g' = last_flash_time g"
  using assms
  by (auto simp: audio_callback_rounded_def send_flash_event_rounded_def Let_def
           split: option.splits if_splits)

text \<open>
  Every event of a run comes, up to the rounding, at least one cooldown after any
  instant \<open>G\<close> that is not later than the last flash and not later than the rounded clock
  readings of the run.
\<close>

lemma run_rounded_after_bound:
  assumes err: "\<And>x. \<bar>rnd x - x\<bar> \<le> u * \<bar>x\<bar>"
      and u: "0 \<le> u" "u < 1" and cd: "0 \<le> COOLDOWN_MS cfg"
  shows "sorted (clock_readings cs) \<Longrightarrow> G \<le> last_flash_time g \<Longrightarrow>
   \<forall>t \<in> set (clock_readings cs). G \<le> rnd (t * 1000) \<and> \<bar>t\<bar> \<le> T \<Longrightarrow>
   \<forall>e \<in> set (run_rounded rnd cfg g cs).
      G + COOLDOWN_MS cfg / (1 + u) - 1000 * u * T \<le> timestamp e * 1000"
proof (induction cs arbitrary: g)
  case Nil
  then show ?case by simp
next
  case (Cons c cs)
  obtain g' r where ac: "audio_callback_rounded rnd cfg g c = (g', r)"
    by (cases "audio_callback_rounded rnd cfg g c")
  have srt: "sorted (clock_readings cs)"
    using Cons.prems(1) by simp
  have bnd: "\<forall>t \<in> set (clock_readings cs). G \<le> rnd (t * 1000) \<and> \<bar>t\<bar> \<le> T"
    using Cons.prems(3) by simp
  have mono: "clock_detect c \<le> clock_stamp c"
    using Cons.prems(1) by simp
  show ?case
  proof (cases r)
    case None
    with ac have "last_flash_time g' = last_flash_time g"
      by (simp add: audio_callback_rounded_no_event)
    with Cons.prems(2) have "G \<le> last_flash_time g'" by simp
    from Cons.IH [OF srt this bnd] ac None show ?thesis by simp
  next
    case (Some e)
    with ac have ev: "timestamp e = clock_stamp c"
      "last_flash_time g' = rnd (clock_flash c * 1000)"
      "COOLDOWN_MS cfg \<le> rnd (rnd (clock_detect c * 1000) - last_flash_time g)"
      using audio_callback_rounded_event by blast+
    have "G \<le> last_flash_time g'"
      using ev(2) Cons.prems(3) by simp
    from Cons.IH [OF srt this bnd]
    have rest: "\<forall>e \<in> set (run_rounded rnd cfg g' cs).
        G + COOLDOWN_MS cfg / (1 + u) - 1000 * u * T \<le> timestamp e * 1000" .
    have gap: "COOLDOWN_MS cfg / (1 + u) \<le> rnd (clock_detect c * 1000) - last_flash_time g"
      using err u cd ev(3) by (rule rounded_gap)
    have "\<bar>clock_detect c\<bar> \<le> T" using Cons.prems(3) by simp
    then have "\<bar>rnd (clock_detect c * 1000) - clock_detect c * 1000\<bar> \<le> 1000 * u * T"
      using err u(1) by (intro rounded_ms)
    then have "rnd (clock_detect c * 1000) \<le> clock_detect c * 1000 + 1000 * u * T"
      by linarith
    with gap Cons.prems(2) mono ev(1)
    have "G + COOLDOWN_MS cfg / (1 + u) - 1000 * u * T \<le> timestamp e * 1000"
      by linarith
    with rest ac Some show ?thesis by simp
  qed
qed

text \<open>
  C1, as the code has it. In every run of \<^verbatim>\<open>audio_callback\<close>, from any state, in which the
  clock never goes backwards, any two emitted events, whatever their kinds, carry
  timestamps no closer than \<^verbatim>\<open>COOLDOWN_MS\<close> milliseconds minus a rounding tolerance: for
  a rounding to nearest of relative error at most \<open>u\<close> (\<open>2\<^sup>-\<^sup>5\<^sup>3\<close> for doubles) and clock
  readings of magnitude at most \<open>T\<close> seconds, the gap in milliseconds is at least
  \<open>COOLDOWN_MS / (1 + u) - 2000 * u * T\<close> (timestamps are in seconds).
\<close>

theorem cooldown_separates_events_rounded:
  assumes mono: "\<And>x y. x \<le> y \<Longrightarrow> rnd x \<le> rnd y"
      and err: "\<And>x. \<bar>rnd x - x\<bar> \<le> u * \<bar>x\<bar>"
      and u: "0 \<le> u" "u < 1" and cd: "0 \<le> COOLDOWN_MS cfg"
      and srt: "sorted (clock_readings cs)"
      and bnd: "\<forall>t \<in> set (clock_readings cs). \<bar>t\<bar> \<le> T"
  shows "sorted_wrt
           (\<lambda>e1 e2. COOLDOWN_MS cfg / (1 + u) - 2000 * u * T
                       \<le> (timestamp e2 - timestamp e1) * 1000)
           (run_rounded rnd cfg g cs)"
  using srt bnd
proof (induction cs arbitrary: g)
  case Nil
  then show ?case by simp
next
  case (Cons c cs)
  obtain g' r where ac: "audio_callback_rounded rnd cfg g c = (g', r)"
    by (cases "audio_callback_rounded rnd cfg g c")
  have srt': "sorted (clock_readings cs)"
    using Cons.prems(1) by simp
  have bnd': "\<forall>t \<in> set (clock_readings cs). \<bar>t\<bar> \<le> T"
    using Cons.prems(2) by simp
  show ?case
  proof (cases r)
    case None
    with ac Cons.IH [OF srt' bnd'] show ?thesis by simp
  next
    case (Some e)
    with ac have ev: "timestamp e = clock_stamp c"
      "last_flash_time g' = rnd (clock_flash c * 1000)"
      using audio_callback_rounded_event by blast+
    let ?G = "rnd (clock_flash c * 1000)"
    have "\<forall>t \<in> set (clock_readings cs). clock_flash c \<le> t"
      using Cons.prems(1) by simp
    then have later: "\<forall>t \<in> set (clock_readings cs). ?G \<le> rnd (t * 1000) \<and> \<bar>t\<bar> \<le> T"
      using bnd' by (auto intro: mono)
    have after: "\<forall>e' \<in> set (run_rounded rnd cfg g' cs).
            ?G + COOLDOWN_MS cfg / (1 + u) - 1000 * u * T \<le> timestamp e' * 1000"
      using run_rounded_after_bound [OF err u cd srt' _ later, of g'] ev(2) by simp
    have "\<bar>clock_flash c\<bar> \<le> T" using Cons.prems(2) by simp
    then have "\<bar>?G - clock_flash c * 1000\<bar> \<le> 1000 * u * T"
      using err u(1) by (intro rounded_ms)
    moreover have "clock_stamp c \<le> clock_flash c"
      using Cons.prems(1) by simp
    ultimately have low: "timestamp e * 1000 - 1000 * u * T \<le> ?G"
      using ev(1) by linarith
    have "\<forall>e' \<in> set (run_rounded rnd cfg g' cs).
            COOLDOWN_MS cfg / (1 + u) - 2000 * u * T \<le> (timestamp e' - timestamp e) * 1000"
    proof
      fix e' assume "e' \<in> set (run_rounded rnd cfg g' cs)"
      with after have "?G + COOLDOWN_MS cfg / (1 + u) - 1000 * u * T \<le> timestamp e' * 1000"
        by blast
      with low show "COOLDOWN_MS cfg / (1 + u) - 2000 * u * T
                       \<le> (timestamp e' - timestamp e) * 1000"
        by (simp add: algebra_simps)
    qed
    with ac Some Cons.IH [OF srt' bnd'] show ?thesis by simp
  qed
qed

text \<open>
  The clock is the wall clock. When it steps back by an eighth of a second between the
  timestamp of an event (5 s) and the assignment to \<^verbatim>\<open>last_flash_time\<close> (4.875 s), a chunk
  at 5.125 s passes the cooldown test, and two events are emitted 125 ms apart. All
  readings, their products by 1000 and the differences are doubles, so that no
  operation rounds.
\<close>

theorem clock_step_back_counterexample:
  "map timestamp (run_rounded no_rounding default_config warm_globals
      [(bass_chunk 6000 5)\<lparr>clock_flash := 39 / 8\<rparr>, bass_chunk 20000 (41 / 8)]) = [5, 41 / 8] \<and>
   \<bar>41 / 8 - 5\<bar> * 1000 < COOLDOWN_MS default_config"
  by (simp add: bass_chunk_def default_config_def warm_globals_def no_rounding_def
        audio_callback_rounded_def send_flash_event_rounded_def detect_rhythm_event_rounded_def
        detect_bass_drop_def deque_append_def mean_def Let_def py_int_def)

lemma shrink_mono: "x \<le> y \<Longrightarrow> shrink x \<le> shrink y"
  by (simp add: shrink_def field_simps)

lemma shrink_error: "\<bar>shrink x - x\<bar> \<le> (1 / 2 ^ 53) * \<bar>x\<bar>"
  by (simp add: shrink_def)

lemma run_rounded_three_chunks:
  "map timestamp (run_rounded shrink default_config warm_globals
      [bass_chunk 6000 5, bass_chunk 9000 (51 / 10), bass_chunk 20000 (53 / 10)])
   = [5, 53 / 10]"
  by (simp add: bass_chunk_def default_config_def warm_globals_def shrink_def
        audio_callback_rounded_def send_flash_event_rounded_def detect_rhythm_event_rounded_def
        detect_bass_drop_def deque_append_def mean_def Let_def py_int_def)

theorem cooldown_separates_events_rounded_witness:
  "sorted (clock_readings
      [bass_chunk 6000 5, bass_chunk 9000 (51 / 10), bass_chunk 20000 (53 / 10)]) \<and>
   map timestamp (run_rounded shrink default_config warm_globals
      [bass_chunk 6000 5, bass_chunk 9000 (51 / 10), bass_chunk 20000 (53 / 10)])
     = [5, 53 / 10] \<and>
   sorted_wrt
     (\<lambda>e1 e2. COOLDOWN_MS default_config / (1 + 1 / 2 ^ 53) - 2000 * (1 / 2 ^ 53) * (53 / 10)
                 \<le> (timestamp e2 - timestamp e1) * 1000)
     (run_rounded shrink default_config warm_globals
        [bass_chunk 6000 5, bass_chunk 9000 (51 / 10), bass_chunk 20000 (53 / 10)])"
proof -
  let ?cs = "[bass_chunk 6000 5, bass_chunk 9000 (51 / 10), bass_chunk 20000 (53 / 10)]"
  have s: "sorted (clock_readings ?cs)"
    by (simp add: bass_chunk_def)
  have b: "\<forall>t \<in> set (clock_readings ?cs). \<bar>t\<bar> \<le> 53 / 10"
    by (simp add: bass_chunk_def)
  have u: "(0::real) \<le> 1 / 2 ^ 53" "(1::real) / 2 ^ 53 < 1"
    by simp_all
  have cd: "0 \<le> COOLDOWN_MS default_config"
    by (simp add: default_config_def)
  from cooldown_separates_events_rounded [of shrink "1 / 2 ^ 53" default_config ?cs "53 / 10"
         warm_globals, OF shrink_mono shrink_error u cd s b]
       s run_rounded_three_chunks
  show ?thesis by blast
qed

section \<open>Classification\<close>

text \<open>
  C5. A chunk and history that satisfy both the bass-drop criterion (bass above twice the
  mean of the bass history and above 5000) and the rhythm criterion (bass above 1.5 times
  the mean and above 3000) are never classified as rhythm; when the classifier is reached,
  that is the cooldown has elapsed and both histories hold five samples, the result is
  the bass drop.
\<close>

theorem bass_drop_before_rhythm:
  assumes "bass > mean bass_hist * 2 \<and> bass > 5000"
      and "bass > mean bass_hist * (3 / 2) \<and> bass > 3000"
  shows "detect_rhythm_event cfg last_flash now bass mid bass_hist mid_hist \<noteq> Some Rhythm \<and>
         (COOLDOWN_MS cfg \<le> now * 1000 - last_flash \<and>
          5 \<le> length bass_hist \<and> 5 \<le> length mid_hist \<longrightarrow>
          detect_rhythm_event cfg last_flash now bass mid bass_hist mid_hist = Some Bass_drop)"
  using assms
  by (auto simp: detect_rhythm_event_def detect_bass_drop_def Let_def)

theorem bass_drop_before_rhythm_witness:
  "((6000::real) > mean [1000, 1000, 1000, 1000, 6000] * 2 \<and> (6000::real) > 5000) \<and>
   ((6000::real) > mean [1000, 1000, 1000, 1000, 6000] * (3 / 2) \<and> (6000::real) > 3000) \<and>
   COOLDOWN_MS default_config \<le> 5 * 1000 - 0 \<and>
   detect_rhythm_event default_config 0 5 6000 0
     [1000, 1000, 1000, 1000, 6000] [0, 0, 0, 0, 0] = Some Bass_drop"
  using bass_drop_before_rhythm [where bass = 6000 and bass_hist = "[1000, 1000, 1000, 1000, 6000]"
          and cfg = default_config and last_flash = 0 and now = 5 and mid = 0
          and mid_hist = "[0, 0, 0, 0, 0]"]
  by (simp add: mean_def default_config_def)

lemma sorted_all_increasing: "sorted_wrt (<) r \<Longrightarrow> all_increasing r"
  by (auto simp: all_increasing_def list_all_iff intro: sorted_wrt_nth_less)

text \<open>
  C6. When the classifier is reached (cooldown elapsed, five samples in both histories),
  the last five samples of the bass history are strictly increasing and none of the
  bass-drop, rhythm and vocal criteria holds, the result is a build event. The witness is
  the history 100, 200, 300, 400, 500.
\<close>

theorem increasing_bass_is_build:
  assumes "COOLDOWN_MS cfg \<le> now * 1000 - last_flash"
      and "5 \<le> length bass_hist" and "5 \<le> length mid_hist"
      and "sorted_wrt (<) (drop (length bass_hist - 5) bass_hist)"
      and "\<not> (bass > mean bass_hist * 2 \<and> bass > 5000)"
      and "\<not> (bass > mean bass_hist * (3 / 2) \<and> bass > 3000)"
      and "\<not> (mid > mean mid_hist * (13 / 10) \<and> mid > bass * (6 / 5))"
  shows "detect_rhythm_event cfg last_flash now bass mid bass_hist mid_hist = Some Build"
proof -
  have "all_increasing (drop (length bass_hist - 5) bass_hist)"
    using assms(4) by (rule sorted_all_increasing)
  then show ?thesis
    using assms by (auto simp: detect_rhythm_event_def detect_bass_drop_def Let_def)
qed

theorem increasing_bass_is_build_witness:
  "COOLDOWN_MS default_config \<le> 5 * 1000 - 0 \<and>
   sorted_wrt (<) (drop (length [100, 200, 300, 400, 500 :: real] - 5)
     [100, 200, 300, 400, 500 :: real]) \<and>
   \<not> ((500::real) > mean [100, 200, 300, 400, 500] * 2 \<and> (500::real) > 5000) \<and>
   \<not> ((500::real) > mean [100, 200, 300, 400, 500] * (3 / 2) \<and> (500::real) > 3000) \<and>
   \<not> ((400::real) > mean [400, 400, 400, 400, 400] * (13 / 10) \<and> (400::real) > 500 * (6 / 5)) \<and>
   detect_rhythm_event default_config 0 5 500 400
     [100, 200, 300, 400, 500] [400, 400, 400, 400, 400] = Some Build"
  using increasing_bass_is_build [where cfg = default_config and now = 5 and last_flash = 0
          and bass_hist = "[100, 200, 300, 400, 500]"
          and mid_hist = "[400, 400, 400, 400, 400]" and bass = 500 and mid = 400]
  by (simp add: mean_def default_config_def)

section \<open>Minimum-energy floors\<close>

text \<open>
  A chunk whose volume and band energies are all 5, far below every floor of the
  configuration, after the bass energies 1, 2, 3, 4: \<^verbatim>\<open>audio_callback\<close> emits a build
  event.
\<close>

theorem quiet_chunk_counterexample:
  "chunk_rms (bass_chunk 5 5) < MIN_VOLUME_THRESHOLD default_config \<and>
   chunk_bass (bass_chunk 5 5) < MIN_VOLUME_THRESHOLD default_config \<and>
   chunk_mid (bass_chunk 5 5) < MIN_VOLUME_THRESHOLD default_config \<and>
   chunk_high (bass_chunk 5 5) < MIN_VOLUME_THRESHOLD default_config \<and>
   map_option event_type (snd (audio_callback default_config quiet_globals (bass_chunk 5 5)))
     = Some Build"
  by (simp add: bass_chunk_def default_config_def quiet_globals_def
        audio_callback_def send_flash_event_def detect_rhythm_event_def detect_bass_drop_def
        deque_append_def mean_def Let_def py_int_def all_increasing_def)

text \<open>
  C2, as the code has it. In ai_audio_analyzer.py a chunk whose bass energy does not
  exceed 3000 is never classified as bass drop or rhythm, for any history; in
  dj_listener.py a chunk whose volume does not exceed \<^verbatim>\<open>MIN_VOLUME_THRESHOLD\<close> is never a
  beat, for any history. The vocal and build paths have no absolute floor.
\<close>

theorem floors_guard:
  "(bass \<le> 3000 \<longrightarrow>
      detect_rhythm_event cfg last_flash now bass mid bass_hist mid_hist \<noteq> Some Bass_drop \<and>
      detect_rhythm_event cfg last_flash now bass mid bass_hist mid_hist \<noteq> Some Rhythm) \<and>
   (rms \<le> MIN_VOLUME_THRESHOLD cfg \<longrightarrow> \<not> snd (dj_listener_detect_beat cfg g rms now'))"
  by (auto simp: detect_rhythm_event_def detect_bass_drop_def dj_listener_detect_beat_def Let_def)

theorem floors_guard_witness:
  "(2000::real) \<le> 3000 \<and>
   detect_rhythm_event default_config 0 5 2000 0 [100, 100, 100, 100, 2000] [0, 0, 0, 0, 0]
     \<noteq> Some Bass_drop \<and>
   detect_rhythm_event default_config 0 5 2000 0 [100, 100, 100, 100, 2000] [0, 0, 0, 0, 0]
     \<noteq> Some Rhythm \<and>
   400 \<le> MIN_VOLUME_THRESHOLD default_config \<and>
   \<not> snd (dj_listener_detect_beat default_config warm_globals 400 5)"
  using floors_guard [where bass = 2000 and cfg = default_config and last_flash = 0 and now = 5
          and mid = 0 and bass_hist = "[100, 100, 100, 100, 2000]"
          and mid_hist = "[0, 0, 0, 0, 0]" and rms = 400 and g = warm_globals and now' = 5]
  by (simp add: default_config_def)

section \<open>Tempo\<close>

text \<open>
  On the 20th chunk, with a tempo of 120 known and the estimator failing, the shared
  tempo does not keep its value.
\<close>

theorem tempo_counterexample:
  "Suc (frame_counter quiet_globals) mod 20 = 0 \<and> chunk_tempo (bass_chunk 5 5) = None \<and>
   current_bpm quiet_globals = 120 \<and>
   current_bpm (fst (audio_callback default_config quiet_globals (bass_chunk 5 5))) \<noteq>
     current_bpm quiet_globals"
  by (simp add: bass_chunk_def default_config_def quiet_globals_def
        audio_callback_def send_flash_event_def detect_rhythm_event_def detect_bass_drop_def
        deque_append_def mean_def Let_def py_int_def all_increasing_def estimate_bpm_def)

text \<open>
  C3, as the code has it. \<^verbatim>\<open>audio_callback\<close> always returns; on every 20th chunk the
  shared tempo becomes the estimate, and 0 when the estimator fails; on every other chunk
  it keeps its value.
\<close>

theorem tempo_after_chunk:
  "(Suc (frame_counter g) mod 20 = 0 \<longrightarrow>
      current_bpm (fst (audio_callback cfg g c)) =
        (case chunk_tempo c of Some tempo \<Rightarrow> tempo | None \<Rightarrow> 0)) \<and>
   (Suc (frame_counter g) mod 20 \<noteq> 0 \<longrightarrow>
      current_bpm (fst (audio_callback cfg g c)) = current_bpm g)"
  by (auto simp: audio_callback_def send_flash_event_def Let_def estimate_bpm_def
           split: option.splits)

theorem tempo_after_chunk_witness:
  "Suc (frame_counter quiet_globals) mod 20 = 0 \<and>
   current_bpm (fst (audio_callback default_config quiet_globals
      ((bass_chunk 5 5)\<lparr>chunk_tempo := Some 128\<rparr>))) = 128 \<and>
   Suc (frame_counter warm_globals) mod 20 \<noteq> 0 \<and>
   current_bpm (fst (audio_callback default_config warm_globals (bass_chunk 5 5))) =
     current_bpm warm_globals"
  using tempo_after_chunk [where g = quiet_globals and cfg = default_config
          and c = "(bass_chunk 5 5)\<lparr>chunk_tempo := Some 128\<rparr>"]
        tempo_after_chunk [where g = warm_globals and cfg = default_config
          and c = "bass_chunk 5 5"]
  by (simp add: quiet_globals_def warm_globals_def bass_chunk_def)

section \<open>The gate and the cooldown clock\<close>

text \<open>
  \<^verbatim>\<open>detect_beat\<close> of dj_listener.py returns true on a volume of 2000 after two chunks
  of volume 100, and the last-event timestamp has changed when it returns.
\<close>

theorem gate_writes_clock_counterexample:
  "snd (dj_listener_detect_beat default_config
          (initial_globals\<lparr>volume_history := [100, 100]\<rparr>) 2000 5) = True \<and>
   last_flash_time (fst (dj_listener_detect_beat default_config
          (initial_globals\<lparr>volume_history := [100, 100]\<rparr>) 2000 5)) \<noteq>
   last_flash_time (initial_globals\<lparr>volume_history := [100, 100]\<rparr>)"
  by (simp add: dj_listener_detect_beat_def default_config_def initial_globals_def
        deque_append_def mean_def Let_def)

text \<open>
  C4, as the code has it. \<^verbatim>\<open>detect_beat\<close> of dj_listener.py, live_song_analyzer.py and
  simple_rhythm_demo.py updates the cooldown state itself: a call that returns true has
  set \<^verbatim>\<open>last_flash_time\<close> to the current time in milliseconds, and a call that returns
  false leaves it unchanged.
\<close>

theorem gate_sets_last_flash_time:
  "last_flash_time (fst (dj_listener_detect_beat cfg g rms now)) =
     (if snd (dj_listener_detect_beat cfg g rms now) then now * 1000 else last_flash_time g) \<and>
   last_flash_time (fst (live_song_analyzer_detect_beat cfg g rms bass now)) =
     (if fst (snd (live_song_analyzer_detect_beat cfg g rms bass now))
      then now * 1000 else last_flash_time g) \<and>
   last_flash_time (fst (simple_rhythm_demo_detect_beat cfg g rms bass now)) =
     (if fst (snd (simple_rhythm_demo_detect_beat cfg g rms bass now))
      then now * 1000 else last_flash_time g)"
  by (simp add: dj_listener_detect_beat_def live_song_analyzer_detect_beat_def
        simple_rhythm_demo_detect_beat_def Let_def)

theorem gate_sets_last_flash_time_witness:
  "snd (dj_listener_detect_beat default_config
          (initial_globals\<lparr>volume_history := [100, 100]\<rparr>) 2000 5) \<and>
   last_flash_time (fst (dj_listener_detect_beat default_config
          (initial_globals\<lparr>volume_history := [100, 100]\<rparr>) 2000 5)) = 5000 \<and>
   \<not> snd (dj_listener_detect_beat default_config
          (initial_globals\<lparr>volume_history := [100, 100]\<rparr>) 100 5) \<and>
   last_flash_time (fst (dj_listener_detect_beat default_config
          (initial_globals\<lparr>volume_history := [100, 100]\<rparr>) 100 5)) = 0"
  using gate_sets_last_flash_time [where cfg = default_config
          and g = "initial_globals\<lparr>volume_history := [100, 100]\<rparr>" and rms = 2000 and now = 5]
        gate_sets_last_flash_time [where cfg = default_config
          and g = "initial_globals\<lparr>volume_history := [100, 100]\<rparr>" and rms = 100 and now = 5]
  by (simp add: dj_listener_detect_beat_def default_config_def initial_globals_def
        deque_append_def mean_def Let_def)

section \<open>Intensity\<close>

lemma clamp_min_max: "lo \<le> hi \<Longrightarrow> min hi (max lo x) = spec_clamp x lo hi"
  by (auto simp: spec_clamp_def)

text \<open>
  C7. For every non-negative signal value the intensity lies between 0 and 1: for the
  continuous mappings of music_rhythm_test.py and live_song_analyzer.py, which are the
  clamp of the scaled value between the floor (0.3, 0.4) and 1, for the mapping of
  \<^verbatim>\<open>analyze_music_file\<close>, for the fixed table, and for the intensity that each
  \<^verbatim>\<open>detect_beat\<close> returns.
\<close>

theorem intensity_in_unit_interval:
  assumes "0 \<le> v"
  shows "0 \<le> music_rhythm_test_intensity v \<and> music_rhythm_test_intensity v \<le> 1 \<and>
         0 \<le> live_song_analyzer_intensity v \<and> live_song_analyzer_intensity v \<le> 1 \<and>
         0 \<le> music_file_intensity v \<and> music_file_intensity v \<le> 1 \<and>
         0 \<le> intensity_table k \<and> intensity_table k \<le> 1 \<and>
         music_rhythm_test_intensity v = spec_clamp (v / 5000) (3 / 10) 1 \<and>
         live_song_analyzer_intensity v = spec_clamp (v / 4000) (4 / 10) 1 \<and>
         0 \<le> snd (snd (music_rhythm_test_detect_beat cfg g v b now)) \<and>
         snd (snd (music_rhythm_test_detect_beat cfg g v b now)) \<le> 1 \<and>
         0 \<le> snd (snd (live_song_analyzer_detect_beat cfg g v b now)) \<and>
         snd (snd (live_song_analyzer_detect_beat cfg g v b now)) \<le> 1 \<and>
         0 \<le> snd (snd (simple_rhythm_demo_detect_beat cfg g v b now)) \<and>
         snd (snd (simple_rhythm_demo_detect_beat cfg g v b now)) \<le> 1"
proof -
  have a: "0 \<le> music_rhythm_test_intensity v \<and> music_rhythm_test_intensity v \<le> 1"
    by (simp add: music_rhythm_test_intensity_def)
  have b: "0 \<le> live_song_analyzer_intensity v \<and> live_song_analyzer_intensity v \<le> 1"
    by (simp add: live_song_analyzer_intensity_def)
  have c: "0 \<le> music_file_intensity v \<and> music_file_intensity v \<le> 1"
    using assms by (simp add: music_file_intensity_def)
  have d: "0 \<le> intensity_table k \<and> intensity_table k \<le> 1"
    by (cases k) simp_all
  have e: "music_rhythm_test_intensity v = spec_clamp (v / 5000) (3 / 10) 1"
    unfolding music_rhythm_test_intensity_def by (rule clamp_min_max) simp
  have f: "live_song_analyzer_intensity v = spec_clamp (v / 4000) (4 / 10) 1"
    unfolding live_song_analyzer_intensity_def by (rule clamp_min_max) simp
  have g1: "0 \<le> snd (snd (music_rhythm_test_detect_beat cfg g v b now)) \<and>
         snd (snd (music_rhythm_test_detect_beat cfg g v b now)) \<le> 1"
    using a by (simp add: music_rhythm_test_detect_beat_def Let_def)
  have g2: "0 \<le> snd (snd (live_song_analyzer_detect_beat cfg g v b now)) \<and>
         snd (snd (live_song_analyzer_detect_beat cfg g v b now)) \<le> 1"
    using b by (simp add: live_song_analyzer_detect_beat_def Let_def)
  have g3: "0 \<le> snd (snd (simple_rhythm_demo_detect_beat cfg g v b now)) \<and>
         snd (snd (simple_rhythm_demo_detect_beat cfg g v b now)) \<le> 1"
    by (simp add: simple_rhythm_demo_detect_beat_def Let_def le_max_iff_disj)
  from a b c d e f g1 g2 g3 show ?thesis by blast
qed

theorem intensity_in_unit_interval_witness:
  "(0::real) \<le> 0 \<and> music_rhythm_test_intensity 0 = 3 / 10 \<and>
   live_song_analyzer_intensity 0 = 4 / 10 \<and> music_file_intensity 0 = 0 \<and>
   (0::real) \<le> 1000000 \<and> music_rhythm_test_intensity 1000000 = 1 \<and>
   live_song_analyzer_intensity 1000000 = 1 \<and> music_file_intensity 1000000 = 1 \<and>
   spec_clamp (1000000 / 5000) (3 / 10) 1 = 1 \<and> spec_clamp (0 / 4000) (4 / 10) 1 = 4 / 10"
  using intensity_in_unit_interval [where v = 0 and k = Build]
        intensity_in_unit_interval [where v = 1000000 and k = Build]
  by (simp add: music_rhythm_test_intensity_def live_song_analyzer_intensity_def
        music_file_intensity_def spec_clamp_def)

section \<open>Histories are updated before they are read\<close>

lemma deque_append_last: "0 < n \<Longrightarrow> last (deque_append n d v) = v"
  by (cases d) (auto simp: deque_append_def Let_def)

lemma deque_append_nonempty_last: "deque_append n d v \<noteq> [] \<Longrightarrow> last (deque_append n d v) = v"
  by (cases d) (auto simp: deque_append_def Let_def split: if_splits)

lemma dj_listener_history:
  "volume_history (fst (dj_listener_detect_beat cfg g rms now)) =
     deque_append (HISTORY_SIZE cfg) (volume_history g) rms"
  by (simp add: dj_listener_detect_beat_def Let_def)

lemma dj_listener_fired:
  assumes "snd (dj_listener_detect_beat cfg g rms now)"
  shows "rms > max (MIN_VOLUME_THRESHOLD cfg)
           (min (mean (deque_append (HISTORY_SIZE cfg) (volume_history g) rms) *
                 VOLUME_THRESHOLD_MULTIPLIER cfg) (MAX_VOLUME_THRESHOLD cfg)) \<and>
         deque_append (HISTORY_SIZE cfg) (volume_history g) rms \<noteq> []"
  using assms by (auto simp: dj_listener_detect_beat_def Let_def split: if_splits)

lemma music_rhythm_test_history:
  "volume_history (fst (music_rhythm_test_detect_beat cfg g rms bass now)) =
     deque_append 20 (volume_history g) rms \<and>
   bass_history (fst (music_rhythm_test_detect_beat cfg g rms bass now)) =
     deque_append 20 (bass_history g) bass"
  by (simp add: music_rhythm_test_detect_beat_def Let_def)

lemma music_rhythm_test_fired:
  assumes "fst (snd (music_rhythm_test_detect_beat cfg g rms bass now))"
  shows "(rms > mean (deque_append 20 (volume_history g) rms) * (15 / 10) \<and> rms > 500) \<or>
         (bass > mean (deque_append 20 (bass_history g) bass) * (18 / 10) \<and> bass > 1000)"
  using assms by (auto simp: music_rhythm_test_detect_beat_def Let_def split: if_splits)

lemma audio_callback_history:
  "volume_history (fst (audio_callback cfg g c)) =
     deque_append (HISTORY_SIZE cfg) (volume_history g) (chunk_rms c) \<and>
   bass_history (fst (audio_callback cfg g c)) = deque_append 10 (bass_history g) (chunk_bass c) \<and>
   mid_history (fst (audio_callback cfg g c)) = deque_append 10 (mid_history g) (chunk_mid c)"
  by (auto simp: audio_callback_def send_flash_event_def Let_def split: option.splits)

lemma audio_callback_decision:
  "map_option event_type (snd (audio_callback cfg g c)) =
     (if emit_ok c
      then detect_rhythm_event cfg (last_flash_time g) (clock_detect c) (chunk_bass c) (chunk_mid c)
             (deque_append 10 (bass_history g) (chunk_bass c))
             (deque_append 10 (mid_history g) (chunk_mid c))
      else None)"
  by (auto simp: audio_callback_def send_flash_event_def Let_def split: option.splits)

text \<open>
  C10. In \<^verbatim>\<open>detect_beat\<close> of dj_listener.py and music_rhythm_test.py and in
  \<^verbatim>\<open>audio_callback\<close> of ai_audio_analyzer.py the histories after the call are the
  histories before it with the current values appended, whatever the outcome of the call
  (warm-up, cooldown, no classification); the appended value is the last entry, and the
  means that decide the call are taken of these updated histories, so they include the
  value tested against them.
\<close>

theorem history_updated_before_detection:
  "volume_history (fst (dj_listener_detect_beat cfg g rms now)) =
     deque_append (HISTORY_SIZE cfg) (volume_history g) rms \<and>
   (snd (dj_listener_detect_beat cfg g rms now) \<longrightarrow>
      last (volume_history (fst (dj_listener_detect_beat cfg g rms now))) = rms \<and>
      rms > max (MIN_VOLUME_THRESHOLD cfg)
        (min (mean (volume_history (fst (dj_listener_detect_beat cfg g rms now))) *
              VOLUME_THRESHOLD_MULTIPLIER cfg) (MAX_VOLUME_THRESHOLD cfg))) \<and>
   volume_history (fst (music_rhythm_test_detect_beat cfg g rms bass now)) =
     deque_append 20 (volume_history g) rms \<and>
   bass_history (fst (music_rhythm_test_detect_beat cfg g rms bass now)) =
     deque_append 20 (bass_history g) bass \<and>
   last (volume_history (fst (music_rhythm_test_detect_beat cfg g rms bass now))) = rms \<and>
   last (bass_history (fst (music_rhythm_test_detect_beat cfg g rms bass now))) = bass \<and>
   (fst (snd (music_rhythm_test_detect_beat cfg g rms bass now)) \<longrightarrow>
      (rms > mean (volume_history (fst (music_rhythm_test_detect_beat cfg g rms bass now)))
               * (15 / 10) \<and> rms > 500) \<or>
      (bass > mean (bass_history (fst (music_rhythm_test_detect_beat cfg g rms bass now)))
               * (18 / 10) \<and> bass > 1000)) \<and>
   volume_history (fst (audio_callback cfg g c)) =
     deque_append (HISTORY_SIZE cfg) (volume_history g) (chunk_rms c) \<and>
   bass_history (fst (audio_callback cfg g c)) = deque_append 10 (bass_history g) (chunk_bass c) \<and>
   mid_history (fst (audio_callback cfg g c)) = deque_append 10 (mid_history g) (chunk_mid c) \<and>
   last (bass_history (fst (audio_callback cfg g c))) = chunk_bass c \<and>
   last (mid_history (fst (audio_callback cfg g c))) = chunk_mid c \<and>
   map_option event_type (snd (audio_callback cfg g c)) =
     (if emit_ok c
      then detect_rhythm_event cfg (last_flash_time g) (clock_detect c) (chunk_bass c) (chunk_mid c)
             (bass_history (fst (audio_callback cfg g c)))
             (mid_history (fst (audio_callback cfg g c)))
      else None)"
proof -
  note dj = dj_listener_history [of cfg g rms now]
  note mr = music_rhythm_test_history [of cfg g rms bass now]
  note ac = audio_callback_history [of cfg g c]
  have a: "snd (dj_listener_detect_beat cfg g rms now) \<longrightarrow>
      last (volume_history (fst (dj_listener_detect_beat cfg g rms now))) = rms \<and>
      rms > max (MIN_VOLUME_THRESHOLD cfg)
        (min (mean (volume_history (fst (dj_listener_detect_beat cfg g rms now))) *
              VOLUME_THRESHOLD_MULTIPLIER cfg) (MAX_VOLUME_THRESHOLD cfg))"
    using dj_listener_fired [of cfg g rms now]
    by (simp add: dj deque_append_nonempty_last)
  have b: "last (volume_history (fst (music_rhythm_test_detect_beat cfg g rms bass now))) = rms"
       "last (bass_history (fst (music_rhythm_test_detect_beat cfg g rms bass now))) = bass"
    using mr by (simp_all add: deque_append_last)
  have b': "fst (snd (music_rhythm_test_detect_beat cfg g rms bass now)) \<longrightarrow>
      (rms > mean (volume_history (fst (music_rhythm_test_detect_beat cfg g rms bass now)))
               * (15 / 10) \<and> rms > 500) \<or>
      (bass > mean (bass_history (fst (music_rhythm_test_detect_beat cfg g rms bass now)))
               * (18 / 10) \<and> bass > 1000)"
    using music_rhythm_test_fired [of cfg g rms bass now] mr by simp
  have d: "last (bass_history (fst (audio_callback cfg g c))) = chunk_bass c"
       "last (mid_history (fst (audio_callback cfg g c))) = chunk_mid c"
    using ac by (simp_all add: deque_append_last)
  have e: "map_option event_type (snd (audio_callback cfg g c)) =
     (if emit_ok c
      then detect_rhythm_event cfg (last_flash_time g) (clock_detect c) (chunk_bass c) (chunk_mid c)
             (bass_history (fst (audio_callback cfg g c)))
             (mid_history (fst (audio_callback cfg g c)))
      else None)"
    using audio_callback_decision [of cfg g c] ac by simp
  from dj mr ac a b b' d e show ?thesis by blast
qed

theorem history_updated_before_detection_witness:
  "snd (dj_listener_detect_beat default_config
          (initial_globals\<lparr>volume_history := [100, 100]\<rparr>) 2000 5) \<and>
   volume_history (fst (dj_listener_detect_beat default_config
          (initial_globals\<lparr>volume_history := [100, 100]\<rparr>) 2000 5)) = [100, 100, 2000] \<and>
   \<not> fst (snd (music_rhythm_test_detect_beat default_config
          (initial_globals\<lparr>volume_history := [100, 100]\<rparr>) 2000 0 5)) \<and>
   volume_history (fst (music_rhythm_test_detect_beat default_config
          (initial_globals\<lparr>volume_history := [100, 100]\<rparr>) 2000 0 5)) = [100, 100, 2000] \<and>
   snd (audio_callback default_config warm_globals (bass_chunk 9000 (1 / 10))) = None \<and>
   bass_history (fst (audio_callback default_config warm_globals (bass_chunk 9000 (1 / 10))))
     = [1000, 1000, 1000, 1000, 9000]"
  using history_updated_before_detection [where cfg = default_config
          and g = "initial_globals\<lparr>volume_history := [100, 100]\<rparr>" and rms = 2000
          and bass = 0 and now = 5 and c = "bass_chunk 9000 (1 / 10)"]
        history_updated_before_detection [where cfg = default_config
          and g = warm_globals and rms = 2000
          and bass = 0 and now = 5 and c = "bass_chunk 9000 (1 / 10)"]
  by (simp add: dj_listener_detect_beat_def music_rhythm_test_detect_beat_def
        default_config_def initial_globals_def warm_globals_def bass_chunk_def
        audio_callback_def detect_rhythm_event_def deque_append_def mean_def Let_def)

section \<open>Frequency bands\<close>

lemma masked_sum_bins:
  "distinct ks \<Longrightarrow>
   masked_sum (map f ks) (map g ks) lo hi = (\<Sum>k \<in> {k \<in> set ks. lo \<le> g k \<and> g k \<le> hi}. f k)"
proof (induction ks)
  case Nil
  then show ?case by (simp add: masked_sum_def)
next
  case (Cons k ks)
  let ?P = "\<lambda>k. lo \<le> g k \<and> g k \<le> hi"
  have fin: "finite {j \<in> set ks. ?P j}" by simp
  have notin: "k \<notin> {j \<in> set ks. ?P j}" using Cons.prems by simp
  have IH: "masked_sum (map f ks) (map g ks) lo hi = (\<Sum>j \<in> {j \<in> set ks. ?P j}. f j)"
    using Cons by simp
  show ?case
  proof (cases "?P k")
    case True
    then have "{j \<in> set (k # ks). ?P j} = insert k {j \<in> set ks. ?P j}" by auto
    moreover have "masked_sum (map f (k # ks)) (map g (k # ks)) lo hi =
        f k + masked_sum (map f ks) (map g ks) lo hi"
      using True by (simp add: masked_sum_def)
    ultimately show ?thesis using IH fin notin by simp
  next
    case False
    then have "{j \<in> set (k # ks). ?P j} = {j \<in> set ks. ?P j}" by auto
    moreover have "masked_sum (map f (k # ks)) (map g (k # ks)) lo hi =
        masked_sum (map f ks) (map g ks) lo hi"
      using False by (auto simp add: masked_sum_def)
    ultimately show ?thesis using IH by simp
  qed
qed

lemma dft_bin_scale: "dft_bin (map (\<lambda>y. y / c) x) k = dft_bin x k / complex_of_real c"
  by (simp add: dft_bin_def sum_divide_distrib)

lemma cmod_dft_bin_scale:
  "0 < c \<Longrightarrow> cmod (dft_bin x k) = c * cmod (dft_bin (map (\<lambda>y. y / c) x) k)"
  by (simp add: dft_bin_scale norm_divide)

lemma band_bins:
  "masked_sum (map cmod (rfft x)) (rfftfreq (length x) (1 / sr)) lo hi =
   (\<Sum>k \<in> {k. k \<le> length x div 2 \<and> lo \<le> real k * sr / real (length x) \<and>
               real k * sr / real (length x) \<le> hi}. cmod (dft_bin x k))"
proof -
  have "masked_sum (map cmod (rfft x)) (rfftfreq (length x) (1 / sr)) lo hi =
        masked_sum (map (\<lambda>k. cmod (dft_bin x k)) [0..<length x div 2 + 1])
          (map (\<lambda>k. real k * sr / real (length x)) [0..<length x div 2 + 1]) lo hi"
    by (simp add: rfft_def rfftfreq_def comp_def)
  also have "\<dots> = (\<Sum>k \<in> {k \<in> set [0..<length x div 2 + 1].
        lo \<le> real k * sr / real (length x) \<and> real k * sr / real (length x) \<le> hi}.
        cmod (dft_bin x k))"
    by (rule masked_sum_bins) simp
  also have "{k \<in> set [0..<length x div 2 + 1].
        lo \<le> real k * sr / real (length x) \<and> real k * sr / real (length x) \<le> hi} =
      {k. k \<le> length x div 2 \<and> lo \<le> real k * sr / real (length x) \<and>
               real k * sr / real (length x) \<le> hi}"
    by auto
  finally show ?thesis .
qed

lemma normalised_band:
  "masked_sum (map cmod (rfft (live_song_analyzer_normalize samples)))
     (rfftfreq (length samples) (1 / sr)) lo hi = spec_band_energy samples sr lo hi"
  using band_bins [of "live_song_analyzer_normalize samples" sr lo hi]
  by (simp add: spec_band_energy_def live_song_analyzer_normalize_def comp_def)

lemma raw_band:
  "masked_sum (map cmod (rfft (map (\<lambda>w. real_of_int (sint w)) samples)))
     (rfftfreq (length samples) (1 / sr)) lo hi = 32768 * spec_band_energy samples sr lo hi"
proof -
  let ?x = "map (\<lambda>w. real_of_int (sint w)) samples"
  let ?S = "{k. k \<le> length samples div 2 \<and> lo \<le> real k * sr / real (length samples) \<and>
               real k * sr / real (length samples) \<le> hi}"
  have x: "map (\<lambda>y. y / 32768) ?x = map (\<lambda>w. real_of_int (sint w) / 32768) samples"
    by (simp only: map_map comp_def)
  have m: "cmod (dft_bin ?x k) =
           32768 * cmod (dft_bin (map (\<lambda>w. real_of_int (sint w) / 32768) samples) k)" for k
    using cmod_dft_bin_scale [of 32768 ?x k] by (simp only: x)
  have "masked_sum (map cmod (rfft ?x)) (rfftfreq (length samples) (1 / sr)) lo hi =
        (\<Sum>k \<in> ?S. cmod (dft_bin ?x k))"
    using band_bins [of ?x sr lo hi] by (simp only: length_map)
  also have "\<dots> =
        (\<Sum>k \<in> ?S. 32768 * cmod (dft_bin (map (\<lambda>w. real_of_int (sint w) / 32768) samples) k))"
    by (simp only: m)
  also have "\<dots> = 32768 * spec_band_energy samples sr lo hi"
    by (simp only: spec_band_energy_def sum_distrib_left)
  finally show ?thesis .
qed

lemma normalize_range:
  "y \<in> set (live_song_analyzer_normalize samples) \<Longrightarrow> - 1 \<le> y \<and> y \<le> 1"
proof -
  assume "y \<in> set (live_song_analyzer_normalize samples)"
  then obtain w :: "16 word" where y: "y = real_of_int (sint w) / 32768"
    by (auto simp: live_song_analyzer_normalize_def)
  have "- (2 ^ (LENGTH(16) - 1)) \<le> sint w" "sint w < 2 ^ (LENGTH(16) - 1)"
    by (rule sint_ge, rule sint_lt)
  then have "- 32768 \<le> sint w" "sint w < 32768" by simp_all
  then have "- 32768 \<le> real_of_int (sint w)" "real_of_int (sint w) \<le> 32768"
    by linarith+
  then show ?thesis unfolding y by (simp del: of_int_sint)
qed

text \<open>
  C8, as the code has it. For a non-empty chunk and a non-zero sample rate:
  \<^verbatim>\<open>analyze_bass\<close> of live_song_analyzer.py divides the samples by 32768, which puts
  them in \<open>[-1, 1]\<close>, before the transform, and returns the sum of the magnitudes of all
  bins whose centre frequency lies in \<open>[20, 250]\<close>; \<^verbatim>\<open>analyze_frequency_bands\<close> of
  ai_audio_analyzer.py transforms the samples as they are, and for each band (bass
  \<open>[20, 250]\<close>, mid \<open>[250, 2000]\<close>, high \<open>[2000, 8000]\<close>, vocal \<open>[300, 3400]\<close>) returns the
  sum over the bins of the inclusive range, which is 32768 times the energy of the
  normalised chunk.
\<close>

theorem band_energies:
  assumes "samples \<noteq> []" and "sample_rate \<noteq> 0"
  shows "(\<forall>y \<in> set (live_song_analyzer_normalize samples). - 1 \<le> y \<and> y \<le> 1) \<and>
         live_song_analyzer_analyze_bass samples sample_rate =
           Inr (spec_band_energy samples sample_rate 20 250) \<and>
         analyze_frequency_bands samples sample_rate =
           Inr (32768 * spec_band_energy samples sample_rate 20 250,
                32768 * spec_band_energy samples sample_rate 250 2000,
                32768 * spec_band_energy samples sample_rate 2000 8000,
                32768 * spec_band_energy samples sample_rate 300 3400)"
proof -
  have a: "\<forall>y \<in> set (live_song_analyzer_normalize samples). - 1 \<le> y \<and> y \<le> 1"
    using normalize_range by blast
  have len: "length (live_song_analyzer_normalize samples) = length samples"
    by (simp add: live_song_analyzer_normalize_def)
  have ne: "live_song_analyzer_normalize samples \<noteq> []"
    using assms(1) by (simp add: live_song_analyzer_normalize_def)
  have b: "live_song_analyzer_analyze_bass samples sample_rate =
           Inr (spec_band_energy samples sample_rate 20 250)"
    using assms ne
    by (simp add: live_song_analyzer_analyze_bass_def Let_def len normalised_band)
  have c: "analyze_frequency_bands samples sample_rate =
           Inr (32768 * spec_band_energy samples sample_rate 20 250,
                32768 * spec_band_energy samples sample_rate 250 2000,
                32768 * spec_band_energy samples sample_rate 2000 8000,
                32768 * spec_band_energy samples sample_rate 300 3400)"
    using assms
    by (simp only: analyze_frequency_bands_def Let_def raw_band length_map if_False)
  from a b c show ?thesis by blast
qed

lemma dft_bin_impulse: "dft_bin (a # replicate m 0) k = complex_of_real a"
proof -
  have "dft_bin (a # replicate m 0) k =
        (\<Sum>n = 0..<Suc m. complex_of_real ((a # replicate m 0) ! n) *
           cis (- (2 * pi * real k * real n / real (Suc m))))"
    by (simp add: dft_bin_def)
  also have "\<dots> = complex_of_real a +
        (\<Sum>n = 0..<m. complex_of_real (replicate m 0 ! n) *
           cis (- (2 * pi * real k * real (Suc n) / real (Suc m))))"
    by (simp add: sum.atLeast0_lessThan_Suc_shift del: sum.op_ivl_Suc)
  also have "\<dots> = complex_of_real a"
    by simp
  finally show ?thesis .
qed

lemma impulse_samples:
  "map (\<lambda>w. real_of_int (sint w)) impulse_chunk = 16384 # replicate 7 0"
  by (simp add: impulse_chunk_def eval_nat_numeral)

lemma impulse_magnitudes:
  "map cmod (rfft (16384 # replicate 7 0)) = [16384, 16384, 16384, 16384, 16384]"
  by (simp add: rfft_def dft_bin_impulse upt_rec)

lemma impulse_frequencies:
  "rfftfreq (length (16384 # replicate 7 (0::real))) (1 / 44100) =
     [0, 11025 / 2, 11025, 33075 / 2, 22050]"
  by (simp add: rfftfreq_def upt_rec)

lemma impulse_bands: "analyze_frequency_bands impulse_chunk 44100 = Inr (0, 0, 16384, 0)"
proof -
  have ne: "impulse_chunk \<noteq> []" by (simp add: impulse_chunk_def)
  show ?thesis
    unfolding analyze_frequency_bands_def Let_def impulse_samples impulse_magnitudes
      impulse_frequencies
    by (simp add: ne masked_sum_def)
qed

text \<open>
  On the impulse chunk at 44100 Hz ai_audio_analyzer.py returns a high-band energy of
  16384; the energy of the normalised chunk is one half.
\<close>

theorem raw_samples_counterexample:
  "analyze_frequency_bands impulse_chunk 44100 \<noteq>
     Inr (spec_band_energy impulse_chunk 44100 20 250,
          spec_band_energy impulse_chunk 44100 250 2000,
          spec_band_energy impulse_chunk 44100 2000 8000,
          spec_band_energy impulse_chunk 44100 300 3400)"
proof
  assume eq: "analyze_frequency_bands impulse_chunk 44100 =
     Inr (spec_band_energy impulse_chunk 44100 20 250,
          spec_band_energy impulse_chunk 44100 250 2000,
          spec_band_energy impulse_chunk 44100 2000 8000,
          spec_band_energy impulse_chunk 44100 300 3400)"
  have ne: "impulse_chunk \<noteq> []" by (simp add: impulse_chunk_def)
  have "masked_sum (map cmod (rfft (map (\<lambda>w. real_of_int (sint w)) impulse_chunk)))
     (rfftfreq (length impulse_chunk) (1 / 44100)) 2000 8000
       = 32768 * spec_band_energy impulse_chunk 44100 2000 8000"
    by (rule raw_band)
  moreover have "masked_sum (map cmod (rfft (map (\<lambda>w. real_of_int (sint w)) impulse_chunk)))
     (rfftfreq (length impulse_chunk) (1 / 44100)) 2000 8000 = 16384"
    unfolding impulse_samples impulse_magnitudes
    by (simp add: masked_sum_def rfftfreq_def upt_rec impulse_chunk_def)
  ultimately have h: "spec_band_energy impulse_chunk 44100 2000 8000 = 1 / 2" by simp
  from eq impulse_bands have "spec_band_energy impulse_chunk 44100 2000 8000 = 16384" by simp
  with h show False by simp
qed

theorem band_energies_witness:
  "impulse_chunk \<noteq> [] \<and> (44100::real) \<noteq> 0 \<and>
   live_song_analyzer_normalize impulse_chunk = [1 / 2, 0, 0, 0, 0, 0, 0, 0] \<and>
   live_song_analyzer_analyze_bass impulse_chunk 44100 =
     Inr (spec_band_energy impulse_chunk 44100 20 250) \<and>
   analyze_frequency_bands impulse_chunk 44100 = Inr (0, 0, 16384, 0) \<and>
   spec_band_energy impulse_chunk 44100 2000 8000 = 1 / 2"
proof -
  have ne: "impulse_chunk \<noteq> []" by (simp add: impulse_chunk_def)
  have sr: "(44100::real) \<noteq> 0" by simp
  have n: "live_song_analyzer_normalize impulse_chunk = [1 / 2, 0, 0, 0, 0, 0, 0, 0]"
    by (simp add: live_song_analyzer_normalize_def impulse_chunk_def)
  from band_energies [OF ne sr] impulse_bands ne n show ?thesis by simp
qed

text \<open>
  In music_rhythm_test.py the test on the dtype is made after the conversion to float32,
  so the division is never reached and the energies are those of the raw samples.
\<close>

lemma music_rhythm_test_bands_raw:
  "music_rhythm_test_analyze_frequency_bands samples sample_rate =
     map_sum id (\<lambda>(b, m, h, v). (b, m, h)) (analyze_frequency_bands samples sample_rate)"
  by (simp add: music_rhythm_test_analyze_frequency_bands_def analyze_frequency_bands_def
        Let_def)

end
